theory Spec2Isabelle
  imports Main "HOL-Library.Sublist"
begin

section \<open>Python strings\<close>

text \<open>
  The exporter is a Python program. A Python \<^verbatim>\<open>str\<close> is modelled as a
  \<^typ>\<open>string\<close>, one \<^typ>\<open>char\<close> per code point, so the model covers the
  code points below 256; the functions below follow CPython on that range.

  \<^verbatim>\<open>str.isspace\<close> (also the class \<^verbatim>\<open>\s\<close> of the \<^verbatim>\<open>re\<close> module on
  \<^verbatim>\<open>str\<close> patterns) holds for TAB, LF, VT, FF, CR, the separators 0x1C to 0x1F,
  the blank, NEL (0x85) and the no-break space (0xA0).
\<close>

definition py_isspace :: "char \<Rightarrow> bool" where
  "py_isspace c = (c \<in> set [CHR 0x09, CHR 0x0A, CHR 0x0B, CHR 0x0C, CHR 0x0D,
     CHR 0x1C, CHR 0x1D, CHR 0x1E, CHR 0x1F, CHR 0x20, CHR 0x85, CHR 0xA0])"

text \<open>\<^verbatim>\<open>s.strip()\<close>: leading and trailing white space removed.\<close>

definition py_strip :: "string \<Rightarrow> string" where
  "py_strip s = rev (dropWhile py_isspace (rev (dropWhile py_isspace s)))"

text \<open>
  \<^verbatim>\<open>s.lower()\<close>: the capital letters A to Z, and the capital letters of the
  Latin-1 block (0xC0 to 0xDE but the multiplication sign 0xD7), move up by 32.
\<close>

definition py_lower_char :: "char \<Rightarrow> char" where
  "py_lower_char c =
     (let n = (of_char c :: nat) in
      if (65 \<le> n \<and> n \<le> 90) \<or> (192 \<le> n \<and> n \<le> 222 \<and> n \<noteq> 215)
      then char_of (n + 32) else c)"

definition py_lower :: "string \<Rightarrow> string" where
  "py_lower s = map py_lower_char s"

text \<open>\<^verbatim>\<open>c.isupper()\<close> for one character.\<close>

definition py_isupper_char :: "char \<Rightarrow> bool" where
  "py_isupper_char c =
     (let n = (of_char c :: nat) in
      (65 \<le> n \<and> n \<le> 90) \<or> (192 \<le> n \<and> n \<le> 222 \<and> n \<noteq> 215))"

text \<open>\<^verbatim>\<open>s.startswith(p)\<close>.\<close>

definition py_startswith :: "string \<Rightarrow> string \<Rightarrow> bool" where
  "py_startswith s p = (take (length p) s = p)"

text \<open>
  \<^verbatim>\<open>s.split(c)\<close> for a separator of one character: the pieces between the
  separators, empty pieces included; the empty string gives one empty piece.
\<close>

fun py_split :: "char \<Rightarrow> string \<Rightarrow> string list" where
  "py_split c [] = [[]]"
| "py_split c (x # xs) =
     (if x = c then [] # py_split c xs
      else (case py_split c xs of [] \<Rightarrow> [[x]] | p # ps \<Rightarrow> (x # p) # ps))"

text \<open>
  \<^verbatim>\<open>s.split(c, 1)\<close> for a string that contains \<open>c\<close>: the text before the first
  \<open>c\<close> and the text after it.
\<close>

definition py_split1 :: "char \<Rightarrow> string \<Rightarrow> string \<times> string" where
  "py_split1 c s = (takeWhile (\<lambda>x. x \<noteq> c) s, drop 1 (dropWhile (\<lambda>x. x \<noteq> c) s))"

text \<open>
  \<^verbatim>\<open>s.splitlines()\<close>: the line boundaries are LF, CR, CR LF (one boundary), VT,
  FF, 0x1C, 0x1D, 0x1E and NEL; no empty last line is produced after a final boundary.
\<close>

definition py_linebreak :: "char \<Rightarrow> bool" where
  "py_linebreak c = (c \<in> set [CHR 0x0A, CHR 0x0B, CHR 0x0C, CHR 0x0D,
     CHR 0x1C, CHR 0x1D, CHR 0x1E, CHR 0x85])"

fun splitlines_from :: "string \<Rightarrow> string \<Rightarrow> string list" where
  "splitlines_from cur [] = (if cur = [] then [] else [rev cur])"
| "splitlines_from cur [x] =
     (if py_linebreak x then [rev cur] else [rev (x # cur)])"
| "splitlines_from cur (x # y # ys) =
     (if x = CHR 0x0D \<and> y = CHR 0x0A then rev cur # splitlines_from [] ys
      else if py_linebreak x then rev cur # splitlines_from [] (y # ys)
      else splitlines_from (x # cur) (y # ys))"

definition py_splitlines :: "string \<Rightarrow> string list" where
  "py_splitlines s = splitlines_from [] s"

text \<open>\<^verbatim>\<open>s.replace("\r\n", "\n")\<close>.\<close>

fun replace_crlf :: "string \<Rightarrow> string" where
  "replace_crlf (x # y # ys) =
     (if x = CHR 0x0D \<and> y = CHR 0x0A then CHR 0x0A # replace_crlf ys
      else x # replace_crlf (y # ys))"
| "replace_crlf xs = xs"

text \<open>\<^verbatim>\<open>str(n)\<close> of an integer: its decimal digits, with a minus sign below zero.\<close>

fun nat_digits :: "nat \<Rightarrow> string" where
  "nat_digits n =
     (if n < 10 then [char_of (48 + n)]
      else nat_digits (n div 10) @ [char_of (48 + n mod 10)])"

definition str_of_int :: "int \<Rightarrow> string" where
  "str_of_int i = (if i < 0 then CHR ''-'' # nat_digits (nat (- i)) else nat_digits (nat i))"

text \<open>
  \<^verbatim>\<open>int(s)\<close> of a string: white space around the literal is dropped; the literal is
  an optional sign and decimal digits, where single underscores may stand between
  digits. \<open>None\<close> stands for \<^verbatim>\<open>ValueError\<close>. (The interpreter's cap on the
  number of digits of such a literal, 4300 by default, is a resource limit outside
  this model.)
\<close>

definition is_digit :: "char \<Rightarrow> bool" where
  "is_digit c = (let n = (of_char c :: nat) in 48 \<le> n \<and> n \<le> 57)"

fun int_body_ok :: "string \<Rightarrow> bool" where
  "int_body_ok [] = False"
| "int_body_ok [c] = is_digit c"
| "int_body_ok (c # d # ds) =
     (is_digit c \<and> (if d = CHR ''_'' then int_body_ok ds else int_body_ok (d # ds)))"

definition digits_value :: "string \<Rightarrow> nat" where
  "digits_value ds = foldl (\<lambda>acc c. 10 * acc + (of_char c - 48)) 0 (filter is_digit ds)"

definition int_of_str :: "string \<Rightarrow> int option" where
  "int_of_str s =
     (let t = py_strip s;
          (neg, body) = (case t of
              c # cs \<Rightarrow> if c = CHR ''-'' then (True, cs)
                        else if c = CHR ''+'' then (False, cs) else (False, t)
            | [] \<Rightarrow> (False, t))
      in if int_body_ok body
         then Some (if neg then - int (digits_value body) else int (digits_value body))
         else None)"

section \<open>Regular expressions\<close>

text \<open>
  The patterns of the exporter are sequences of literal characters, greedy repetitions
  of one character class (\<^verbatim>\<open>\s*\<close>, \<^verbatim>\<open>.+\<close>, \<^verbatim>\<open>[^)]+\<close>), captured such
  repetitions, one optional group of the form \<^verbatim>\<open>(?:c([class]+))?\<close> and the end
  anchor. \<open>Rep n P\<close> is an uncaptured greedy repetition of the class \<open>P\<close>, at least
  \<open>n\<close> times; \<open>Cap n P\<close> is the same, captured as a group; \<open>OptCap c P\<close> is the
  optional group; \<open>Eos\<close> is \<^verbatim>\<open>$\<close>.
\<close>

datatype atom =
    Lit char
  | Rep nat "char \<Rightarrow> bool"
  | Cap nat "char \<Rightarrow> bool"
  | OptCap char "char \<Rightarrow> bool"
  | Eos

fun first_some :: "('a \<Rightarrow> 'b option) \<Rightarrow> 'a list \<Rightarrow> 'b option" where
  "first_some f [] = None"
| "first_some f (x # xs) = (case f x of Some y \<Rightarrow> Some y | None \<Rightarrow> first_some f xs)"

text \<open>
  The lengths a greedy repetition tries, longest first: all of the longest run of
  class characters, then one less, down to the minimum.
\<close>

definition greedy_lengths :: "nat \<Rightarrow> (char \<Rightarrow> bool) \<Rightarrow> string \<Rightarrow> nat list" where
  "greedy_lengths lo P s = rev [lo ..< Suc (length (takeWhile P s))]"

text \<open>
  The class \<^verbatim>\<open>.\<close> is every character but LF. A literal matches itself, under
  \<^verbatim>\<open>re.IGNORECASE\<close> up to case. \<^verbatim>\<open>$\<close> matches at the end of the text and
  before a line feed that ends the text.

  \<open>rmatch ci as s\<close> is the backtracking match of the atoms \<open>as\<close> at the start of
  \<open>s\<close>: the first success in the order in which the \<^verbatim>\<open>re\<close> module explores
  the choices, with the text of every group (\<open>None\<close> for a group that took no part).
\<close>

definition re_dot :: "char \<Rightarrow> bool" where
  "re_dot c = (c \<noteq> CHR 0x0A)"

definition lit_eq :: "bool \<Rightarrow> char \<Rightarrow> char \<Rightarrow> bool" where
  "lit_eq ci c x = (if ci then py_lower_char x = py_lower_char c else x = c)"

primrec rmatch :: "bool \<Rightarrow> atom list \<Rightarrow> string \<Rightarrow> string option list option" where
  "rmatch ci [] = (\<lambda>s. Some [])"
| "rmatch ci (a # as) = (\<lambda>s.
     case a of
       Lit c \<Rightarrow>
         (case s of [] \<Rightarrow> None
          | x # xs \<Rightarrow> if lit_eq ci c x then rmatch ci as xs else None)
     | Rep lo P \<Rightarrow>
         first_some (\<lambda>k. rmatch ci as (drop k s)) (greedy_lengths lo P s)
     | Cap lo P \<Rightarrow>
         first_some (\<lambda>k. map_option (\<lambda>gs. Some (take k s) # gs) (rmatch ci as (drop k s)))
           (greedy_lengths lo P s)
     | OptCap c P \<Rightarrow>
         (case (case s of [] \<Rightarrow> None
                | x # xs \<Rightarrow>
                    if lit_eq ci c x
                    then first_some
                           (\<lambda>k. map_option (\<lambda>gs. Some (take k xs) # gs)
                                  (rmatch ci as (drop k xs)))
                           (greedy_lengths 1 P xs)
                    else None) of
            Some gs \<Rightarrow> Some gs
          | None \<Rightarrow> map_option (\<lambda>gs. None # gs) (rmatch ci as s))
     | Eos \<Rightarrow> if s = [] \<or> s = [CHR 0x0A] then rmatch ci as s else None)"

text \<open>\<^verbatim>\<open>re.match\<close> anchors at the start; \<^verbatim>\<open>re.search\<close> tries every start, leftmost first.\<close>

definition re_match :: "bool \<Rightarrow> atom list \<Rightarrow> string \<Rightarrow> string option list option" where
  "re_match ci as s = rmatch ci as s"

definition re_search :: "bool \<Rightarrow> atom list \<Rightarrow> string \<Rightarrow> string option list option" where
  "re_search ci as s = first_some (\<lambda>i. rmatch ci as (drop i s)) [0 ..< Suc (length s)]"

text \<open>The group \<open>i\<close> of a match (counted from 0 here), the empty text when it took no part.\<close>

definition group :: "string option list \<Rightarrow> nat \<Rightarrow> string" where
  "group gs i = (if i < length gs then (case gs ! i of Some g \<Rightarrow> g | None \<Rightarrow> []) else [])"

section \<open>Type annotations (utils/type\_utils.py)\<close>

text \<open>
  \<^verbatim>\<open>^enum\s*\(\s*([^)]+)\s*\)$\<close>,
  \<^verbatim>\<open>^list\s*\(\s*(.+)\s*\)$\<close> and
  \<^verbatim>\<open>^dict\s*\(\s*([^,]+)\s*,\s*(.+)\s*\)$\<close>, all with \<^verbatim>\<open>re.IGNORECASE\<close>.
\<close>

definition ENUM_RE :: "atom list" where
  "ENUM_RE = [Lit CHR ''e'', Lit CHR ''n'', Lit CHR ''u'', Lit CHR ''m'', Rep 0 py_isspace,
     Lit CHR ''('', Rep 0 py_isspace, Cap 1 (\<lambda>c. c \<noteq> CHR '')''), Rep 0 py_isspace,
     Lit CHR '')'', Eos]"

definition LIST_RE :: "atom list" where
  "LIST_RE = [Lit CHR ''l'', Lit CHR ''i'', Lit CHR ''s'', Lit CHR ''t'', Rep 0 py_isspace,
     Lit CHR ''('', Rep 0 py_isspace, Cap 1 re_dot, Rep 0 py_isspace, Lit CHR '')'', Eos]"

definition DICT_RE :: "atom list" where
  "DICT_RE = [Lit CHR ''d'', Lit CHR ''i'', Lit CHR ''c'', Lit CHR ''t'', Rep 0 py_isspace,
     Lit CHR ''('', Rep 0 py_isspace, Cap 1 (\<lambda>c. c \<noteq> CHR '',''), Rep 0 py_isspace,
     Lit CHR '','', Rep 0 py_isspace, Cap 1 re_dot, Rep 0 py_isspace, Lit CHR '')'', Eos]"

text \<open>
  \<^verbatim>\<open>base_norm\<close>, the local function of \<^verbatim>\<open>parse_type_annotation\<close>. \<open>alias_norm\<close>
  is its table of aliases, applied to the stripped, lower-cased text.
\<close>

definition alias_norm :: "string \<Rightarrow> string" where
  "alias_norm s =
     (if s \<in> set [''int'', ''int32'', ''integer''] then ''int''
      else if s \<in> set [''float'', ''double''] then ''float''
      else if s \<in> set [''str'', ''string''] then ''string''
      else if s \<in> set [''bool'', ''boolean''] then ''bool''
      else s)"

definition base_norm :: "string \<Rightarrow> string" where
  "base_norm s = alias_norm (py_lower (py_strip s))"

text \<open>
  \<^verbatim>\<open>parse_type_annotation(type_str)\<close>. The argument is \<open>None\<close> or a string
  (\<^verbatim>\<open>t = (type_str or "").strip()\<close>); the result is the pair of the kind and the
  base, which is \<open>None\<close> for a dictionary whose values are no enumeration.
\<close>

definition parse_type_annotation :: "string option \<Rightarrow> string \<times> string option" where
  "parse_type_annotation type_str =
     (let t = py_strip (case type_str of None \<Rightarrow> [] | Some s \<Rightarrow> s) in
      case re_match True ENUM_RE t of
        Some gs \<Rightarrow> (''enum'', Some (py_strip (group gs 0)))
      | None \<Rightarrow>
        (case re_match True LIST_RE t of
           Some gs \<Rightarrow>
             (let inner = py_strip (group gs 0) in
              case re_match True ENUM_RE inner of
                Some es \<Rightarrow> (''list'', Some (''enum('' @ py_strip (group es 0) @ '')''))
              | None \<Rightarrow> (''list'', Some (base_norm inner)))
         | None \<Rightarrow>
           (case re_match True DICT_RE t of
              Some gs \<Rightarrow>
                (let value_type = py_strip (group gs 1) in
                 case re_match True ENUM_RE value_type of
                   Some es \<Rightarrow> (''dict'', Some (''enum('' @ py_strip (group es 0) @ '')''))
                 | None \<Rightarrow> (''dict'', None))
            | None \<Rightarrow> (''scalar'', Some (base_norm t)))))"

section \<open>Composite primary keys\<close>

text \<open>
  \<^verbatim>\<open>WorksheetData.MAX_KEY2 = 46340\<close> and \<^verbatim>\<open>MULTIPLIER = MAX_KEY2\<close>
  (core/worksheet\_data.py); the combined key of a row is
  \<^verbatim>\<open>k1 * self.MULTIPLIER + k2\<close>.
\<close>

definition MAX_KEY2 :: int where
  "MAX_KEY2 = 46340"

definition MULTIPLIER :: int where
  "MULTIPLIER = MAX_KEY2"

definition combined :: "int \<Rightarrow> int \<Rightarrow> int" where
  "combined k1 k2 = k1 * MULTIPLIER + k2"

section \<open>Properties\<close>

lemma combined_div:
  assumes "0 \<le> k2" "k2 < MAX_KEY2"
  shows "combined k1 k2 div MAX_KEY2 = k1"
  using assms by (simp add: combined_def MULTIPLIER_def MAX_KEY2_def)

lemma combined_mod:
  assumes "0 \<le> k2" "k2 < MAX_KEY2"
  shows "combined k1 k2 mod MAX_KEY2 = k2"
  using assms by (simp add: combined_def MULTIPLIER_def MAX_KEY2_def)

text \<open>
  Claim C8. On the domain \<open>0 \<le> k1, k2 < 46340\<close> the combination
  \<open>k1 * 46340 + k2\<close> is injective: two pairs with the same combined key are the
  same pair.
\<close>

theorem combined_injective:
  assumes "0 \<le> k1" "k1 < MAX_KEY2" "0 \<le> k2" "k2 < MAX_KEY2"
    and "0 \<le> j1" "j1 < MAX_KEY2" "0 \<le> j2" "j2 < MAX_KEY2"
    and "(k1, k2) \<noteq> (j1, j2)"
  shows "combined k1 k2 \<noteq> combined j1 j2"
proof
  assume eq: "combined k1 k2 = combined j1 j2"
  have "k1 = combined k1 k2 div MAX_KEY2" using assms(3,4) by (simp add: combined_div)
  also have "\<dots> = j1" using assms(7,8) eq by (simp add: combined_div)
  finally have a: "k1 = j1" .
  have "k2 = combined k1 k2 mod MAX_KEY2" using assms(3,4) by (simp add: combined_mod)
  also have "\<dots> = j2" using assms(7,8) eq by (simp add: combined_mod)
  finally have b: "k2 = j2" .
  from a b assms(9) show False by simp
qed

theorem combined_injective_witness:
  "(0::int) \<le> 3 \<and> 3 < MAX_KEY2 \<and> (0::int) \<le> 5 \<and> 5 < MAX_KEY2
   \<and> ((3::int), (5::int)) \<noteq> (5, 3) \<and> combined 3 5 \<noteq> combined 5 3"
proof -
  have r: "(0::int) \<le> 3" "3 < MAX_KEY2" "(0::int) \<le> 5" "5 < MAX_KEY2"
    by (simp_all add: MAX_KEY2_def)
  have d: "((3::int), (5::int)) \<noteq> (5, 3)" by simp
  from combined_injective [OF r(1) r(2) r(3) r(4) r(3) r(4) r(1) r(2) d] r d
  show ?thesis by simp
qed

end
